theory Spec2Isabelle
  imports Main "HOL-Library.Sublist"
begin

section \<open>Paths, as \<^verbatim>\<open>pathlib\<close> and \<^verbatim>\<open>os.path\<close> compute them on POSIX\<close>

text \<open>
  The program builds every path with \<^verbatim>\<open>pathlib.Path\<close> (\<^verbatim>\<open>Path(p)\<close>,
  \<^verbatim>\<open>a / b\<close>, \<^verbatim>\<open>.stem\<close>, \<^verbatim>\<open>.suffix\<close>, \<^verbatim>\<open>str\<close>) or with
  \<^verbatim>\<open>os.path.join\<close>. These are pure string functions; they are written out here
  for the POSIX flavour. A path string is a \<open>string\<close>.
\<close>

fun split_on :: "char \<Rightarrow> string \<Rightarrow> string list" where
  "split_on c [] = [[]]"
| "split_on c (x # xs) =
     (if x = c then [] # split_on c xs
      else (case split_on c xs of
              [] \<Rightarrow> [[x]]
            | w # ws \<Rightarrow> (x # w) # ws))"

fun join_with :: "string \<Rightarrow> string list \<Rightarrow> string" where
  "join_with sep [] = []"
| "join_with sep [w] = w"
| "join_with sep (w # v # ws) = w @ sep @ join_with sep (v # ws)"

definition posix_join :: "string \<Rightarrow> string \<Rightarrow> string" where
  \<comment> \<open>\<^verbatim>\<open>os.path.join(a, b)\<close>\<close>
  "posix_join a b =
     (if prefix ''/'' b then b
      else if a = [] \<or> last a = CHR ''/'' then a @ b
      else a @ ''/'' @ b)"

definition path_root :: "string \<Rightarrow> string" where
  \<comment> \<open>\<^verbatim>\<open>posixpath.splitroot\<close>: exactly two leading slashes are kept\<close>
  "path_root p =
     (if \<not> prefix ''/'' p then []
      else if prefix ''//'' p \<and> \<not> prefix ''///'' p then ''//''
      else ''/'')"

definition path_tail :: "string \<Rightarrow> string list" where
  \<comment> \<open>the components of \<^verbatim>\<open>Path(p)\<close>: empty and \<^verbatim>\<open>.\<close> components are dropped\<close>
  "path_tail p = filter (\<lambda>w. w \<noteq> [] \<and> w \<noteq> ''.'') (split_on CHR ''/'' p)"

definition path_str :: "string \<Rightarrow> string" where
  \<comment> \<open>\<^verbatim>\<open>str(Path(p))\<close>\<close>
  "path_str p =
     (let s = path_root p @ join_with ''/'' (path_tail p)
      in if s = [] then ''.'' else s)"

definition path_name :: "string \<Rightarrow> string" where
  \<comment> \<open>\<^verbatim>\<open>Path(p).name\<close>\<close>
  "path_name p = (case path_tail p of [] \<Rightarrow> [] | ws \<Rightarrow> last ws)"

definition rfind_dot :: "string \<Rightarrow> nat option" where
  \<comment> \<open>\<^verbatim>\<open>name.rfind('.')\<close>, with \<open>None\<close> for \<^verbatim>\<open>-1\<close>\<close>
  "rfind_dot name =
     (if CHR ''.'' \<in> set name
      then Some (length name - 1 - length (takeWhile (\<lambda>c. c \<noteq> CHR ''.'') (rev name)))
      else None)"

definition path_stem :: "string \<Rightarrow> string" where
  \<comment> \<open>\<^verbatim>\<open>Path(p).stem\<close>\<close>
  "path_stem p =
     (let name = path_name p
      in case rfind_dot name of
           None \<Rightarrow> name
         | Some i \<Rightarrow> if 0 < i \<and> i < length name - 1 then take i name else name)"

definition path_suffix :: "string \<Rightarrow> string" where
  \<comment> \<open>\<^verbatim>\<open>Path(p).suffix\<close>\<close>
  "path_suffix p =
     (let name = path_name p
      in case rfind_dot name of
           None \<Rightarrow> []
         | Some i \<Rightarrow> if 0 < i \<and> i < length name - 1 then drop i name else [])"

definition ascii_lower :: "char \<Rightarrow> char" where
  "ascii_lower c =
     (case map_of (zip ''ABCDEFGHIJKLMNOPQRSTUVWXYZ'' ''abcdefghijklmnopqrstuvwxyz'') c of
        None \<Rightarrow> c
      | Some d \<Rightarrow> d)"

definition str_lower :: "string \<Rightarrow> string" where
  "str_lower s = map ascii_lower s"

section \<open>The agent: configuration, converter, email (\<^verbatim>\<open>pdf_agent.py\<close>)\<close>

text \<open>
  The configuration is the JSON document of \<^verbatim>\<open>load_config\<close>, which fills in a
  top-level section that is missing and leaves a section that is there as it is. So the
  four sections are present, and a key within the \<^verbatim>\<open>email\<close> or the \<^verbatim>\<open>pandoc\<close>
  section may be absent (\<open>None\<close>). The keys of the \<^verbatim>\<open>pandoc\<close> section are read with
  \<^verbatim>\<open>.get\<close>; those of the \<^verbatim>\<open>email\<close> section with \<^verbatim>\<open>[...]\<close>, which raises
  \<^verbatim>\<open>KeyError\<close> on an absent key.
\<close>

record email_config =
  smtp_server :: "string option"
  smtp_port :: "nat option"
  username :: "string option"
  password :: "string option"
  from_email :: "string option"
  to_email :: "string option"

record pandoc_config =
  engine :: "string option"
  template :: "string option"
  options :: "string list option"

record config =
  email :: email_config
  pandoc :: pandoc_config
  output_directory :: string

text \<open>
  What the program asks of the world. \<^verbatim>\<open>subprocess.run\<close> either returns an exit code
  or raises (the executable is missing, say); its answer may differ from one call to the
  next, so the oracle takes the number of the call within the conversion (0 for the
  primary attempt, 1 for the fallback) and the command. The other oracles answer for
  \<^verbatim>\<open>Path.exists\<close>/\<^verbatim>\<open>os.path.exists\<close>, \<^verbatim>\<open>Path.mkdir\<close>, \<^verbatim>\<open>Path.cwd\<close>, the
  \<^verbatim>\<open>*.pdf\<close> listing of a directory with each file's \<^verbatim>\<open>getctime\<close>, the reading of
  an attachment and the SMTP dialogue for a message (\<open>Some msg\<close> is the exception
  raised), \<^verbatim>\<open>send_file\<close> and \<^verbatim>\<open>file.save\<close> (\<open>Some msg\<close> likewise), and werkzeug's
  \<^verbatim>\<open>secure_filename\<close>.
\<close>

datatype proc_result = Exited int | RunRaised string

record mail =
  mail_server :: string
  mail_port :: nat
  mail_login :: string
  mail_from :: string
  mail_to :: string
  mail_subject :: string
  mail_attachment :: string

record env =
  path_exists :: "string \<Rightarrow> bool"
  mkdir_error :: "string \<Rightarrow> string option"
  cwd :: string
  subprocess_run :: "nat \<Rightarrow> string list \<Rightarrow> proc_result"
  glob_pdf :: "string \<Rightarrow> (string \<times> int) list"
  open_error :: "string \<Rightarrow> string option"
  smtp_error :: "mail \<Rightarrow> string option"
  send_file_error :: "string \<Rightarrow> string option"
  save_error :: "string \<Rightarrow> string option"
  secure_filename :: "string \<Rightarrow> string"

subsection \<open>\<^verbatim>\<open>send_email\<close>\<close>

text \<open>
  Every call of \<^verbatim>\<open>send_email\<close> is recorded with its outcome: the message was sent, the
  configuration was incomplete (logged, nothing sent), or an exception was raised and
  caught (logged): the \<^verbatim>\<open>KeyError\<close> of an absent key, or what reading the attachment
  or the SMTP dialogue raised. The function returns \<^verbatim>\<open>True\<close> only in the first case.
  The recipient recorded is the configured \<^verbatim>\<open>to_email\<close> at the time of the call.
\<close>

datatype email_outcome = Sent mail | Incomplete_config | Email_failed string

record email_call =
  call_attachment :: string
  call_recipient :: "string option"
  call_outcome :: email_outcome

definition key_error :: "string \<Rightarrow> string" where
  \<comment> \<open>\<^verbatim>\<open>str(e)\<close> of the \<^verbatim>\<open>KeyError\<close> for the key\<close>
  "key_error k = [CHR 0x27] @ k @ [CHR 0x27]"

definition send_email :: "env \<Rightarrow> config \<Rightarrow> string \<Rightarrow> string \<Rightarrow> bool \<times> email_call" where
  "send_email w cfg attachment_path subject =
     (let e = email cfg;
          call = (\<lambda>out. \<lparr>call_attachment = attachment_path, call_recipient = to_email e,
                          call_outcome = out\<rparr>)
      in case username e of
           None \<Rightarrow> (False, call (Email_failed (key_error ''username'')))
         | Some user \<Rightarrow>
       (case password e of
           None \<Rightarrow> (False, call (Email_failed (key_error ''password'')))
         | Some pw \<Rightarrow>
       (case to_email e of
           None \<Rightarrow> (False, call (Email_failed (key_error ''to_email'')))
         | Some rcpt \<Rightarrow>
           if \<not> (user \<noteq> [] \<and> pw \<noteq> [] \<and> rcpt \<noteq> []) then (False, call Incomplete_config)
           else
       (case from_email e of
           None \<Rightarrow> (False, call (Email_failed (key_error ''from_email'')))
         | Some sender \<Rightarrow>
       (case open_error w attachment_path of
           Some ex \<Rightarrow> (False, call (Email_failed ex))
         | None \<Rightarrow>
       (case smtp_server e of
           None \<Rightarrow> (False, call (Email_failed (key_error ''smtp_server'')))
         | Some server \<Rightarrow>
       (case smtp_port e of
           None \<Rightarrow> (False, call (Email_failed (key_error ''smtp_port'')))
         | Some port \<Rightarrow>
           let msg = \<lparr>mail_server = server, mail_port = port, mail_login = user,
                        mail_from = (if sender \<noteq> [] then sender else user),
                        mail_to = rcpt, mail_subject = subject,
                        mail_attachment = attachment_path\<rparr>
           in case smtp_error w msg of
                None \<Rightarrow> (True, call (Sent msg))
              | Some ex \<Rightarrow> (False, call (Email_failed ex)))))))))"

subsection \<open>\<^verbatim>\<open>convert_to_ieee_format\<close>\<close>

definition ieee_options :: "string list" where
  "ieee_options =
     [''--standalone'', ''--number-sections'', ''--columns'', ''72'',
      ''-V'', ''geometry:margin=1in'', ''-V'', ''fontsize=10pt'',
      ''-V'', ''documentclass=IEEEtran'', ''-V'', ''classoption=10pt,conference'',
      ''--top-level-division=section'']"

definition template_args :: "env \<Rightarrow> config \<Rightarrow> string list" where
  \<comment> \<open>lines 138-153: what the template lookup appends to the command\<close>
  "template_args w cfg =
     (case template (pandoc cfg) of
        Some t \<Rightarrow>
          if t \<noteq> [] then
            (if path_exists w (path_str t) then [''--template'', path_str t]
             else if path_exists w (path_str (posix_join (cwd w) t))
                  then [''--template'', path_str (posix_join (cwd w) t)]
                  else [])
          else (if path_exists w ''ieee_template_proper.tex''
                then [''--template'', ''ieee_template_proper.tex''] else [])
      | None \<Rightarrow>
          if path_exists w ''ieee_template_proper.tex''
          then [''--template'', ''ieee_template_proper.tex''] else [])"

definition default_output :: "config \<Rightarrow> string \<Rightarrow> string" where
  \<comment> \<open>line 128: \<^verbatim>\<open>str(out_dir / f"{input_path.stem}_IEEE.pdf")\<close>\<close>
  "default_output cfg input_file =
     path_str (posix_join (output_directory cfg) (path_stem input_file @ ''_IEEE.pdf''))"

definition pandoc_cmd :: "env \<Rightarrow> config \<Rightarrow> string \<Rightarrow> string \<Rightarrow> string list" where
  \<comment> \<open>lines 131-170: the command of the primary attempt\<close>
  "pandoc_cmd w cfg input_file output_file =
     [''pandoc'', path_str input_file, ''-o'', output_file]
     @ [''--pdf-engine'', (case engine (pandoc cfg) of None \<Rightarrow> ''xelatex'' | Some g \<Rightarrow> g)]
     @ template_args w cfg
     @ ieee_options
     @ (case options (pandoc cfg) of None \<Rightarrow> [] | Some os \<Rightarrow> os)"

definition cmd_without_template :: "string list \<Rightarrow> string list" where
  \<comment> \<open>line 182: \<^verbatim>\<open>[arg for arg in cmd if not arg.startswith("--template")]\<close>\<close>
  "cmd_without_template cmd = filter (\<lambda>arg. \<not> prefix ''--template'' arg) cmd"

text \<open>
  The function returns the output path, or the empty string on failure (every exception
  is caught and turned into the empty string). The model also returns the commands
  handed to \<^verbatim>\<open>subprocess.run\<close>, in order.
\<close>

definition convert_to_ieee_format ::
  "env \<Rightarrow> config \<Rightarrow> string \<Rightarrow> string option \<Rightarrow> string \<times> string list list" where
  "convert_to_ieee_format w cfg input_file output_file =
     (let explicit = (case output_file of None \<Rightarrow> [] | Some f \<Rightarrow> f) in
      if explicit = [] \<and> mkdir_error w (path_str (output_directory cfg)) \<noteq> None
      then ([], [])
      else
        let out = (if explicit = [] then default_output cfg input_file else explicit);
            cmd = pandoc_cmd w cfg input_file out
        in case subprocess_run w 0 cmd of
             RunRaised ex \<Rightarrow> ([], [cmd])
           | Exited rc \<Rightarrow>
               if rc = 0 then (out, [cmd])
               else
                 (case subprocess_run w 1 (cmd_without_template cmd) of
                    RunRaised ex \<Rightarrow> ([], [cmd, cmd_without_template cmd])
                  | Exited rc' \<Rightarrow>
                      if rc' = 0 then (out, [cmd, cmd_without_template cmd])
                      else ([], [cmd, cmd_without_template cmd])))"

subsection \<open>\<^verbatim>\<open>process_file\<close>\<close>

text \<open>
  \<^verbatim>\<open>process_file\<close> returns a boolean. With a recipient given, it reads the configured
  recipient, overwrites it for the duration of the call and restores it afterwards, so
  the configuration is part of the result. The read, \<^verbatim>\<open>self.config['email']['to_email']\<close>,
  stands outside \<^verbatim>\<open>send_email\<close>: on an absent key its \<^verbatim>\<open>KeyError\<close> is caught by
  \<^verbatim>\<open>process_file\<close>'s own handler, which returns \<^verbatim>\<open>False\<close>, and \<^verbatim>\<open>send_email\<close> is not
  called. The model returns, besides, the converter commands and the calls of
  \<^verbatim>\<open>send_email\<close> it made.
\<close>

record process_result =
  pr_success :: bool
  pr_config :: config
  pr_commands :: "string list list"
  pr_emails :: "email_call list"

definition with_recipient :: "config \<Rightarrow> string \<Rightarrow> config" where
  "with_recipient cfg r = cfg\<lparr>email := (email cfg)\<lparr>to_email := Some r\<rparr>\<rparr>"

definition process_file ::
  "env \<Rightarrow> config \<Rightarrow> string \<Rightarrow> bool \<Rightarrow> string option \<Rightarrow> process_result" where
  "process_file w cfg input_file send_email_flag email_recipient =
     (let (pdf_path, cmds) = convert_to_ieee_format w cfg input_file None in
      if pdf_path = []
      then \<lparr>pr_success = False, pr_config = cfg, pr_commands = cmds, pr_emails = []\<rparr>
      else if send_email_flag then
        (if email_recipient \<noteq> None \<and> email_recipient \<noteq> Some []
         then
           (case to_email (email cfg) of
              None \<Rightarrow>
                \<lparr>pr_success = False, pr_config = cfg, pr_commands = cmds, pr_emails = []\<rparr>
            | Some original_recipient \<Rightarrow>
                let cfg1 = with_recipient cfg (the email_recipient);
                    (sent, call) =
                      send_email w cfg1 pdf_path ''Your IEEE Formatted PDF is Ready''
                in \<lparr>pr_success = True, pr_config = with_recipient cfg1 original_recipient,
                     pr_commands = cmds, pr_emails = [call]\<rparr>)
         else
           let (sent, call) = send_email w cfg pdf_path ''Your IEEE Formatted PDF is Ready''
           in \<lparr>pr_success = True, pr_config = cfg, pr_commands = cmds, pr_emails = [call]\<rparr>)
      else \<lparr>pr_success = True, pr_config = cfg, pr_commands = cmds, pr_emails = []\<rparr>)"

section \<open>The web application (\<^verbatim>\<open>app.py\<close>)\<close>

subsection \<open>Data\<close>

text \<open>
  A file record is the dictionary appended to a session's \<^verbatim>\<open>files\<close>. The keys
  \<^verbatim>\<open>pdf_path\<close>, \<^verbatim>\<open>error\<close> and \<^verbatim>\<open>completed_at\<close> are absent until a job sets them;
  an absent key and a key holding \<^verbatim>\<open>None\<close> are both \<open>None\<close> here.
\<close>

datatype status = Uploaded | Processing | Completed | Failed

record file_record =
  filename :: string
  original_name :: string
  filepath :: string
  uploaded_at :: string
  status :: status
  pdf_path :: "string option"
  error :: "string option"
  completed_at :: "string option"

record session =
  sess_id :: string
  created_at :: string
  files :: "file_record list"
  sess_status :: string
  dismissed_updates :: "string list"

record status_event =
  ev_session_id :: string
  ev_filename :: string
  ev_status :: status
  ev_message :: string
  ev_pdf_path :: "string option"

text \<open>
  The \<^verbatim>\<open>options\<close> value of a convert request is whatever JSON the client sent: an
  object, of which the program reads \<^verbatim>\<open>send_email\<close> (used for its truth value) and
  \<^verbatim>\<open>email_recipient\<close>, or a value of another type (\<^verbatim>\<open>null\<close>, a list, a string, a
  number), kept with the name of its Python type.
\<close>

datatype json_options = Options_dict "bool option" "string option" | Options_other string

text \<open>
  A started thread holds the session id, a reference to the record's dictionary and the
  options. The dictionary lives in the session's list, which only ever grows, so the
  reference is the session's key and the record's index.
\<close>

record job =
  job_session_id :: string
  job_file :: nat
  job_options :: json_options

record clock =
  clock_now :: string
  clock_stamp :: string
  clock_iso :: string
  clock_uuid :: string

text \<open>
  The state of the process: the global \<^verbatim>\<open>sessions\<close>, the agent's configuration, the
  threads started and not yet run, and what the program has done to the world so far:
  the status events emitted, the converter commands run and the calls of
  \<^verbatim>\<open>send_email\<close>.
\<close>

record app_state =
  sessions :: "string \<rightharpoonup> session"
  agent_config :: config
  threads :: "job list"
  events :: "status_event list"
  commands :: "string list list"
  emails :: "email_call list"

datatype response =
    Ok_upload string string
  | Ok_convert string
  | Ok_dismiss
  | Ok_session session
  | Attachment string
  | Error nat string

definition falsy :: "string option \<Rightarrow> bool" where
  \<comment> \<open>Python's \<^verbatim>\<open>not x\<close> for a string that may be \<^verbatim>\<open>None\<close>\<close>
  "falsy x = (case x of None \<Rightarrow> True | Some v \<Rightarrow> v = [])"

subsection \<open>Sessions\<close>

definition allowed_file :: "string \<Rightarrow> bool" where
  "allowed_file name =
     (str_lower (path_suffix name) \<in> set [''.md'', ''.markdown'', ''.tex'', ''.latex''])"

definition get_session :: "clock \<Rightarrow> string \<Rightarrow> app_state \<Rightarrow> session \<times> app_state" where
  "get_session clk sid s =
     (case sessions s sid of
        Some ss \<Rightarrow> (ss, s)
      | None \<Rightarrow>
          let ss = \<lparr>sess_id = sid, created_at = clock_now clk, files = [],
                    sess_status = ''active'', dismissed_updates = []\<rparr>
          in (ss, s\<lparr>sessions := (sessions s)(sid \<mapsto> ss)\<rparr>))"

subsection \<open>\<^verbatim>\<open>upload_file\<close>\<close>

record upload_request =
  up_file :: "string option"
  up_session_id :: "string option"

definition upload_file ::
  "env \<Rightarrow> clock \<Rightarrow> upload_request \<Rightarrow> app_state \<Rightarrow> response \<times> app_state" where
  "upload_file w clk req s =
     (case up_file req of
        None \<Rightarrow> (Error 400 ''No file provided'', s)
      | Some name \<Rightarrow>
          let session_id = (case up_session_id req of None \<Rightarrow> clock_uuid clk | Some i \<Rightarrow> i) in
          if name = [] then (Error 400 ''No file selected'', s)
          else if allowed_file name then
            let fname = clock_stamp clk @ ''_'' @ secure_filename w name;
                fpath = posix_join ''uploads'' fname
            in case save_error w fpath of
                 Some ex \<Rightarrow> (Error 500 ex, s)
               | None \<Rightarrow>
                   let (ss, s1) = get_session clk session_id s;
                       r = \<lparr>filename = fname, original_name = name, filepath = fpath,
                            uploaded_at = clock_iso clk, status = Uploaded,
                            pdf_path = None, error = None, completed_at = None\<rparr>
                   in (Ok_upload fname session_id,
                       s1\<lparr>sessions := (sessions s1)(session_id \<mapsto> ss\<lparr>files := files ss @ [r]\<rparr>)\<rparr>)
          else (Error 400
                  ''Invalid file type. Only .md, .markdown, .tex, .latex files are allowed'', s))"

subsection \<open>\<^verbatim>\<open>convert_file\<close>\<close>

text \<open>
  The request body is a JSON object; each of its three keys may be absent.
\<close>

record convert_request =
  cr_session_id :: "string option"
  cr_filename :: "string option"
  cr_options :: "json_options option"

fun find_file :: "file_record list \<Rightarrow> string \<Rightarrow> nat option" where
  "find_file [] name = None"
| "find_file (f # fs) name =
     (if filename f = name then Some 0
      else (case find_file fs name of None \<Rightarrow> None | Some i \<Rightarrow> Some (Suc i)))"

definition convert_file ::
  "clock \<Rightarrow> convert_request \<Rightarrow> app_state \<Rightarrow> response \<times> app_state" where
  "convert_file clk req s =
     (if falsy (cr_session_id req) \<or> falsy (cr_filename req)
      then (Error 400 ''Session ID and filename required'', s)
      else
        let session_id = the (cr_session_id req);
            name = the (cr_filename req);
            opts = (case cr_options req of None \<Rightarrow> Options_dict None None | Some v \<Rightarrow> v);
            (ss, s1) = get_session clk session_id s
        in case find_file (files ss) name of
             None \<Rightarrow> (Error 404 ''File not found in session'', s1)
           | Some i \<Rightarrow>
               let f = (files ss ! i)\<lparr>status := Processing\<rparr>;
                   ss' = ss\<lparr>files := (files ss)[i := f]\<rparr>
               in (Ok_convert session_id,
                   s1\<lparr>sessions := (sessions s1)(session_id \<mapsto> ss'),
                      threads := threads s1 @
                        [\<lparr>job_session_id = session_id, job_file = i, job_options = opts\<rparr>]\<rparr>))"

subsection \<open>\<^verbatim>\<open>process_conversion\<close>\<close>

fun latest_pdf :: "(string \<times> int) list \<Rightarrow> string option" where
  "latest_pdf [] = None"
| "latest_pdf (x # xs) =
     Some (fst (foldl (\<lambda>best y. if snd best < snd y then y else best) x xs))"

definition status_event ::
  "string \<Rightarrow> file_record \<Rightarrow> status \<Rightarrow> string \<Rightarrow> string option \<Rightarrow> status_event" where
  "status_event session_id file_info st msg pdf =
     \<lparr>ev_session_id = session_id, ev_filename = filename file_info, ev_status = st,
      ev_message = msg, ev_pdf_path = pdf\<rparr>"

definition attribute_error :: "string \<Rightarrow> string" where
  \<comment> \<open>\<^verbatim>\<open>str(e)\<close> of the \<^verbatim>\<open>AttributeError\<close> that \<^verbatim>\<open>options.get\<close> raises\<close>
  "attribute_error ty =
     [CHR 0x27] @ ty @ [CHR 0x27] @ '' object has no attribute '' @ [CHR 0x27] @ ''get''
     @ [CHR 0x27]"

text \<open>
  What a run of the job leaves behind: the record as the thread last wrote it, the
  agent's configuration, and the events, commands and email calls in order. The
  \<^verbatim>\<open>try\<close> block returns, besides, the exception that left it, if one did; what the
  block did before it raised stays done. \<^verbatim>\<open>socketio.emit\<close> is fire-and-forget and is
  taken not to raise.
\<close>

record job_result =
  jr_file :: file_record
  jr_config :: config
  jr_events :: "status_event list"
  jr_commands :: "string list list"
  jr_emails :: "email_call list"

definition try_block ::
  "env \<Rightarrow> clock \<Rightarrow> config \<Rightarrow> string \<Rightarrow> file_record \<Rightarrow> json_options
     \<Rightarrow> job_result \<times> string option" where
  "try_block w clk cfg session_id file_info opts =
     (let started = status_event session_id file_info Processing ''Starting conversion...'' None
      in case opts of
           Options_other ty \<Rightarrow>
             (\<lparr>jr_file = file_info, jr_config = cfg, jr_events = [started], jr_commands = [],
               jr_emails = []\<rparr>,
              Some (attribute_error ty))
         | Options_dict se rcp \<Rightarrow>
             let r = process_file w cfg (filepath file_info)
                       (case se of None \<Rightarrow> True | Some b \<Rightarrow> b) rcp
             in if pr_success r then
                  let latest = latest_pdf (glob_pdf w (output_directory (pr_config r)))
                  in (\<lparr>jr_file = file_info\<lparr>status := Completed, pdf_path := latest,
                                            completed_at := Some (clock_iso clk)\<rparr>,
                       jr_config = pr_config r,
                       jr_events = [started,
                         status_event session_id file_info Completed
                           ''Conversion completed successfully!'' latest],
                       jr_commands = pr_commands r, jr_emails = pr_emails r\<rparr>,
                      None)
                else
                  (\<lparr>jr_file = file_info\<lparr>status := Failed, error := Some ''Conversion failed''\<rparr>,
                    jr_config = pr_config r,
                    jr_events = [started,
                      status_event session_id file_info Failed
                        ''Conversion failed. Check logs for details.'' None],
                    jr_commands = pr_commands r, jr_emails = pr_emails r\<rparr>,
                   None))"

definition process_conversion ::
  "env \<Rightarrow> clock \<Rightarrow> config \<Rightarrow> string \<Rightarrow> file_record \<Rightarrow> json_options \<Rightarrow> job_result" where
  "process_conversion w clk cfg session_id file_info opts =
     (case try_block w clk cfg session_id file_info opts of
        (r, None) \<Rightarrow> r
      | (r, Some e) \<Rightarrow>
          r\<lparr>jr_file := (jr_file r)\<lparr>status := Failed, error := Some e\<rparr>,
            jr_events := jr_events r @
              [status_event session_id (jr_file r) Failed (''Conversion error: '' @ e) None]\<rparr>)"

text \<open>
  A started thread runs once, at some later moment: it runs \<^verbatim>\<open>process_conversion\<close> on
  the dictionary it holds, and what it writes there is seen through the session.
\<close>

definition get_record :: "app_state \<Rightarrow> string \<Rightarrow> nat \<Rightarrow> file_record option" where
  "get_record s sid i =
     (case sessions s sid of
        None \<Rightarrow> None
      | Some ss \<Rightarrow> if i < length (files ss) then Some (files ss ! i) else None)"

definition put_record :: "app_state \<Rightarrow> string \<Rightarrow> nat \<Rightarrow> file_record \<Rightarrow> app_state" where
  "put_record s sid i f =
     (case sessions s sid of
        None \<Rightarrow> s
      | Some ss \<Rightarrow> s\<lparr>sessions := (sessions s)(sid \<mapsto> ss\<lparr>files := (files ss)[i := f]\<rparr>)\<rparr>)"

definition drop_nth :: "nat \<Rightarrow> 'a list \<Rightarrow> 'a list" where
  "drop_nth k xs = take k xs @ drop (Suc k) xs"

definition run_thread :: "env \<Rightarrow> clock \<Rightarrow> nat \<Rightarrow> app_state \<Rightarrow> app_state" where
  "run_thread w clk k s =
     (if k < length (threads s) then
        let j = threads s ! k;
            s1 = s\<lparr>threads := drop_nth k (threads s)\<rparr>
        in case get_record s (job_session_id j) (job_file j) of
             None \<Rightarrow> s1
           | Some file_info \<Rightarrow>
               let r = process_conversion w clk (agent_config s) (job_session_id j) file_info
                         (job_options j)
               in (put_record s1 (job_session_id j) (job_file j) (jr_file r))
                    \<lparr>agent_config := jr_config r,
                     events := events s @ jr_events r,
                     commands := commands s @ jr_commands r,
                     emails := emails s @ jr_emails r\<rparr>
      else s)"

subsection \<open>\<^verbatim>\<open>download_file\<close>, \<^verbatim>\<open>get_session_info\<close>, \<^verbatim>\<open>dismiss_update\<close>\<close>

definition download_file :: "env \<Rightarrow> string \<Rightarrow> response" where
  "download_file w name =
     (let file_path = posix_join ''output'' name in
      if path_exists w file_path then
        (case send_file_error w file_path of
           None \<Rightarrow> Attachment file_path
         | Some ex \<Rightarrow> Error 500 ex)
      else Error 404 ''File not found'')"

definition get_session_info :: "clock \<Rightarrow> string \<Rightarrow> app_state \<Rightarrow> response \<times> app_state" where
  "get_session_info clk sid s = (let (ss, s1) = get_session clk sid s in (Ok_session ss, s1))"

record dismiss_request =
  dr_session_id :: "string option"
  dr_update_id :: "string option"

definition dismiss_update ::
  "clock \<Rightarrow> dismiss_request \<Rightarrow> app_state \<Rightarrow> response \<times> app_state" where
  "dismiss_update clk req s =
     (if falsy (dr_session_id req) \<or> falsy (dr_update_id req)
      then (Error 400 ''Session ID and update ID required'', s)
      else
        let session_id = the (dr_session_id req);
            update_id = the (dr_update_id req);
            (ss, s1) = get_session clk session_id s;
            ss' = (if update_id \<in> set (dismissed_updates ss) then ss
                   else ss\<lparr>dismissed_updates := dismissed_updates ss @ [update_id]\<rparr>)
        in (Ok_dismiss, s1\<lparr>sessions := (sessions s1)(session_id \<mapsto> ss')\<rparr>))"

subsection \<open>Runs of the program\<close>

text \<open>
  The program serves requests one after the other and runs each started thread at some
  moment after its request; a run is a list of such steps, from the state the process
  starts in. A thread's run is one step: its writes to the record are not interleaved
  with other steps.
\<close>

datatype op =
    Upload env clock upload_request
  | Convert clock convert_request
  | Run_thread env clock nat
  | Download env string
  | Session_info clock string
  | Dismiss clock dismiss_request

fun step :: "app_state \<Rightarrow> op \<Rightarrow> app_state" where
  "step s (Upload w clk req) = snd (upload_file w clk req s)"
| "step s (Convert clk req) = snd (convert_file clk req s)"
| "step s (Run_thread w clk k) = run_thread w clk k s"
| "step s (Download w name) = s"
| "step s (Session_info clk sid) = snd (get_session_info clk sid s)"
| "step s (Dismiss clk req) = snd (dismiss_update clk req s)"

definition run :: "app_state \<Rightarrow> op list \<Rightarrow> app_state" where
  "run s ops = foldl step s ops"

definition initial_state :: "config \<Rightarrow> app_state" where
  "initial_state cfg =
     \<lparr>sessions = Map.empty, agent_config = cfg, threads = [], events = [], commands = [],
      emails = []\<rparr>"

definition status_of :: "app_state \<Rightarrow> string \<Rightarrow> nat \<Rightarrow> status option" where
  "status_of s sid i = map_option status (get_record s sid i)"

definition dismissed_of :: "app_state \<Rightarrow> string \<Rightarrow> string list" where
  \<comment> \<open>a session's \<^verbatim>\<open>dismissed_updates\<close>; empty while the session does not exist\<close>
  "dismissed_of s sid = (case sessions s sid of None \<Rightarrow> [] | Some ss \<Rightarrow> dismissed_updates ss)"

section \<open>What the statements below observe\<close>

text \<open>
  The statuses a record goes through in a run: its status before the first step and
  after each step (\<open>None\<close> while the record does not exist), and from these the
  sequence of values it takes on, a value that stays over several steps counted once.
\<close>

fun statuses :: "app_state \<Rightarrow> op list \<Rightarrow> string \<Rightarrow> nat \<Rightarrow> status option list" where
  "statuses s [] sid i = [status_of s sid i]"
| "statuses s (x # xs) sid i = status_of s sid i # statuses (step s x) xs sid i"

fun values_taken :: "status option list \<Rightarrow> status list" where
  "values_taken [] = []"
| "values_taken (None # xs) = values_taken xs"
| "values_taken (Some a # xs) =
     (case values_taken xs of
        [] \<Rightarrow> [a]
      | b # bs \<Rightarrow> if a = b then b # bs else a # b # bs)"

definition lifecycle_prefix :: "status list \<Rightarrow> bool" where
  \<comment> \<open>a prefix of uploaded, processing, then one of completed or failed\<close>
  "lifecycle_prefix h =
     (prefix h [Uploaded, Processing, Completed] \<or> prefix h [Uploaded, Processing, Failed])"

text \<open>
  The record a convert request finds, if it finds one; and the runs in which every
  convert request that finds a record finds it in the status uploaded, so that no record
  is converted a second time.
\<close>

definition convert_target :: "app_state \<Rightarrow> convert_request \<Rightarrow> (string \<times> nat) option" where
  "convert_target s req =
     (if falsy (cr_session_id req) \<or> falsy (cr_filename req) then None
      else case sessions s (the (cr_session_id req)) of
             None \<Rightarrow> None
           | Some ss \<Rightarrow> map_option (Pair (the (cr_session_id req)))
                         (find_file (files ss) (the (cr_filename req))))"

fun first_conversion :: "app_state \<Rightarrow> op \<Rightarrow> bool" where
  "first_conversion s (Convert clk req) =
     (case convert_target s req of
        None \<Rightarrow> True
      | Some (sid, i) \<Rightarrow> status_of s sid i = Some Uploaded)"
| "first_conversion s x = True"

fun first_conversions :: "app_state \<Rightarrow> op list \<Rightarrow> bool" where
  "first_conversions s [] = True"
| "first_conversions s (x # xs) = (first_conversion s x \<and> first_conversions (step s x) xs)"

text \<open>
  What one step may do to a record's status. \<open>permitted_step\<close>: the record is created
  as uploaded, keeps its status, is set to processing, or goes from a status other than
  uploaded to completed or failed. \<open>lifecycle_step\<close>: the record is created as
  uploaded, keeps its status, or takes the next step of uploaded, processing, completed
  or failed.
\<close>

fun permitted_step :: "status option \<Rightarrow> status option \<Rightarrow> bool" where
  "permitted_step None None = True"
| "permitted_step None (Some b) = (b = Uploaded)"
| "permitted_step (Some a) None = False"
| "permitted_step (Some a) (Some b) =
     (b = a \<or> b = Processing \<or> (a \<noteq> Uploaded \<and> (b = Completed \<or> b = Failed)))"

fun lifecycle_step :: "status option \<Rightarrow> status option \<Rightarrow> bool" where
  "lifecycle_step None None = True"
| "lifecycle_step None (Some b) = (b = Uploaded)"
| "lifecycle_step (Some a) None = False"
| "lifecycle_step (Some a) (Some b) =
     (b = a \<or> (a = Uploaded \<and> b = Processing) \<or>
      (a = Processing \<and> (b = Completed \<or> b = Failed)))"

text \<open>
  Invariants of the started threads. In every run, the record a thread holds is past
  uploaded. In a run of first conversions, it is processing and no two threads hold the
  same record.
\<close>

definition job_ref :: "job \<Rightarrow> string \<times> nat" where
  "job_ref j = (job_session_id j, job_file j)"

definition threads_past_upload :: "app_state \<Rightarrow> bool" where
  "threads_past_upload s =
     (\<forall>j \<in> set (threads s). \<exists>a. status_of s (job_session_id j) (job_file j) = Some a \<and>
        a \<noteq> Uploaded)"

definition one_thread_each :: "app_state \<Rightarrow> bool" where
  "one_thread_each s =
     ((\<forall>j \<in> set (threads s). status_of s (job_session_id j) (job_file j) = Some Processing) \<and>
      distinct (map job_ref (threads s)))"

fun may_follow :: "status option \<Rightarrow> status list \<Rightarrow> bool" where
  \<comment> \<open>the sequences of values a record may still take on, from its status now\<close>
  "may_follow None h = lifecycle_prefix h"
| "may_follow (Some Uploaded) h =
     (h \<in> set [[Uploaded], [Uploaded, Processing], [Uploaded, Processing, Completed],
                [Uploaded, Processing, Failed]])"
| "may_follow (Some Processing) h =
     (h \<in> set [[Processing], [Processing, Completed], [Processing, Failed]])"
| "may_follow (Some Completed) h = (h = [Completed])"
| "may_follow (Some Failed) h = (h = [Failed])"

text \<open>
  Where a path points: \<^verbatim>\<open>os.path.normpath\<close>, which resolves \<^verbatim>\<open>..\<close> components
  against the components before them.
\<close>

fun norm_comps :: "bool \<Rightarrow> string list \<Rightarrow> string list \<Rightarrow> string list" where
  "norm_comps rooted acc [] = rev acc"
| "norm_comps rooted acc (c # cs) =
     (if c = ''..'' \<and> (rooted \<or> acc \<noteq> []) \<and> (acc = [] \<or> hd acc \<noteq> ''..'')
      then norm_comps rooted (tl acc) cs
      else norm_comps rooted (c # acc) cs)"

definition posix_normpath :: "string \<Rightarrow> string" where
  "posix_normpath p =
     (let s = path_root p @ join_with ''/'' (norm_comps (path_root p \<noteq> []) [] (path_tail p))
      in if s = [] then ''.'' else s)"

section \<open>Concrete configurations and environments\<close>

text \<open>
  \<open>default_config\<close> is the configuration \<^verbatim>\<open>load_config\<close> writes when there is no
  \<^verbatim>\<open>config.json\<close>. In \<open>quiet_env\<close> no file exists, every external call succeeds and
  nothing is listed; the other environments change it where they say.
\<close>

definition default_config :: config where
  "default_config =
     \<lparr>email = \<lparr>smtp_server = Some ''smtp.gmail.com'', smtp_port = Some 587,
               username = Some [], password = Some [], from_email = Some [],
               to_email = Some []\<rparr>,
      pandoc = \<lparr>engine = Some ''xelatex'', template = Some ''ieee_template_proper.tex'',
                options = Some [''--standalone'', ''--toc'', ''--number-sections'']\<rparr>,
      output_directory = ''output''\<rparr>"

definition quiet_env :: env where
  "quiet_env =
     \<lparr>path_exists = (\<lambda>p. False), mkdir_error = (\<lambda>p. None), cwd = ''/srv/app'',
      subprocess_run = (\<lambda>n cmd. Exited 0), glob_pdf = (\<lambda>d. []),
      open_error = (\<lambda>p. None), smtp_error = (\<lambda>m. None), send_file_error = (\<lambda>p. None), save_error = (\<lambda>p. None),
      secure_filename = (\<lambda>n. n)\<rparr>"

definition template_env :: env where
  \<comment> \<open>the template is on disk; the primary attempt exits with 43, the fallback with 0\<close>
  "template_env =
     quiet_env\<lparr>path_exists := (\<lambda>p. p = ''ieee_template_proper.tex''),
               subprocess_run := (\<lambda>n cmd. if n = 0 then Exited 43 else Exited 0)\<rparr>"

definition noon :: clock where
  "noon = \<lparr>clock_now = ''2025-10-13 12:00:00'', clock_stamp = ''20251013_120000'',
           clock_iso = ''2025-10-13T12:00:00'', clock_uuid = ''3f2a''\<rparr>"

definition draft_record :: file_record where
  \<comment> \<open>\<^verbatim>\<open>draft.md\<close> as uploaded at noon, after its convert request\<close>
  "draft_record =
     \<lparr>filename = ''20251013_120000_draft.md'', original_name = ''draft.md'',
      filepath = ''uploads/20251013_120000_draft.md'', uploaded_at = ''2025-10-13T12:00:00'',
      status = Processing, pdf_path = None, error = None, completed_at = None\<rparr>"

definition pdf_env :: env where
  \<comment> \<open>the converter succeeds and the output directory lists the draft's PDF\<close>
  "pdf_env =
     quiet_env\<lparr>glob_pdf := (\<lambda>d. if d = ''output''
        then [(''output/20251013_120000_draft_IEEE.pdf'', 1760356801)] else [])\<rparr>"


definition race_env :: env where
  \<comment> \<open>as \<open>template_env\<close>; when the job lists the output directory, another job's PDF,
      written a second later, is there too\<close>
  "race_env =
     template_env\<lparr>glob_pdf := (\<lambda>d. if d = ''output''
        then [(''output/20251013_120000_draft_IEEE.pdf'', 1760356801),
              (''output/20251013_115955_other_IEEE.pdf'', 1760356802)]
        else [])\<rparr>"

definition smtp_down_env :: env where
  "smtp_down_env = pdf_env\<lparr>smtp_error := (\<lambda>m. Some ''[Errno 111] Connection refused'')\<rparr>"

definition mail_config :: config where
  \<comment> \<open>the default configuration with the email section filled in\<close>
  "mail_config =
     default_config\<lparr>email := (email default_config)\<lparr>username := Some ''agent@example.org'',
       password := Some ''app-password'', to_email := Some ''reader@example.org''\<rparr>\<rparr>"

definition no_recipient_config :: config where
  \<comment> \<open>a \<^verbatim>\<open>config.json\<close> whose email section holds the account and no \<^verbatim>\<open>to_email\<close>
      key: the recipient is to come with each request\<close>
  "no_recipient_config =
     default_config\<lparr>email := (email default_config)\<lparr>username := Some ''agent@example.org'',
       password := Some ''app-password'', to_email := None\<rparr>\<rparr>"

definition upload_draft :: upload_request where
  "upload_draft = \<lparr>up_file = Some ''draft.md'', up_session_id = Some ''s1''\<rparr>"

definition convert_draft :: convert_request where
  "convert_draft =
     \<lparr>cr_session_id = Some ''s1'', cr_filename = Some ''20251013_120000_draft.md'',
      cr_options = Some (Options_dict (Some False) None)\<rparr>"

definition converted_once :: "op list" where
  \<comment> \<open>upload \<^verbatim>\<open>draft.md\<close>, ask for its conversion, let the job run: it succeeds\<close>
  "converted_once =
     [Upload quiet_env noon upload_draft, Convert noon convert_draft, Run_thread pdf_env noon 0]"

definition unknown_request :: convert_request where
  \<comment> \<open>the draft's filename, in a session nobody has used\<close>
  "unknown_request =
     \<lparr>cr_session_id = Some ''s9'', cr_filename = Some ''20251013_120000_draft.md'',
      cr_options = None\<rparr>"

definition dismiss_v110 :: dismiss_request where
  "dismiss_v110 = \<lparr>dr_session_id = Some ''s1'', dr_update_id = Some ''v1.1.0''\<rparr>"

definition served_env :: env where
  \<comment> \<open>the working directory holds the output directory and \<^verbatim>\<open>config.json\<close>\<close>
  "served_env =
     quiet_env\<lparr>path_exists := (\<lambda>p. posix_normpath p \<in> set [''output'', ''config.json''])\<rparr>"

section \<open>The converter's fallback\<close>

lemmas path_defs =
  posix_join_def path_root_def path_tail_def path_str_def path_name_def rfind_dot_def
  path_stem_def path_suffix_def

lemma default_output_draft:
  "default_output default_config ''uploads/20251013_120000_draft.md'' =
     ''output/20251013_120000_draft_IEEE.pdf''"
  by (simp add: default_output_def default_config_def path_defs)

text \<open>
  When the primary attempt exits with a non-zero code, the converter is run exactly once
  more, with the arguments of the primary command that do not start with
  \<^verbatim>\<open>--template\<close>, and the result is the output path if that run exits with zero and
  the empty string otherwise.
\<close>

lemma convert_fallback_once:
  assumes "mkdir_error w (path_str (output_directory cfg)) = None"
    and "subprocess_run w 0 (pandoc_cmd w cfg input_file (default_output cfg input_file)) = Exited rc"
    and "rc \<noteq> 0"
  shows "snd (convert_to_ieee_format w cfg input_file None) =
           [pandoc_cmd w cfg input_file (default_output cfg input_file),
            cmd_without_template (pandoc_cmd w cfg input_file (default_output cfg input_file))]"
    and "fst (convert_to_ieee_format w cfg input_file None) =
           (if subprocess_run w 1
                 (cmd_without_template (pandoc_cmd w cfg input_file (default_output cfg input_file)))
               = Exited 0
            then default_output cfg input_file else [])"
  using assms
  by (auto simp: convert_to_ieee_format_def Let_def split: proc_result.splits)

lemma convert_at_most_two_commands:
  "length (snd (convert_to_ieee_format w cfg input_file output_file)) \<le> 2"
  by (simp add: convert_to_ieee_format_def Let_def split: proc_result.splits)

text \<open>
  C1. The claim: when the primary invocation exits with a non-zero code, the one fallback
  invocation is the same invocation minus the template flag. The code comments the
  fallback as \<^verbatim>\<open>Try without template as fallback\<close> and builds it by dropping the
  arguments that start with \<^verbatim>\<open>--template\<close>: the flag goes, the template's path that
  followed it stays, as one more positional argument of the converter (an input file,
  for pandoc). With the default configuration and the template on disk, the fallback
  command is not the command without the template: it still holds
  \<^verbatim>\<open>ieee_template_proper.tex\<close>.
\<close>

theorem C1_fallback_keeps_template_path:
  "convert_to_ieee_format template_env default_config ''uploads/20251013_120000_draft.md'' None =
     (''output/20251013_120000_draft_IEEE.pdf'',
      [[''pandoc'', ''uploads/20251013_120000_draft.md'', ''-o'',
        ''output/20251013_120000_draft_IEEE.pdf'', ''--pdf-engine'', ''xelatex'',
        ''--template'', ''ieee_template_proper.tex'',
        ''--standalone'', ''--number-sections'', ''--columns'', ''72'',
        ''-V'', ''geometry:margin=1in'', ''-V'', ''fontsize=10pt'',
        ''-V'', ''documentclass=IEEEtran'', ''-V'', ''classoption=10pt,conference'',
        ''--top-level-division=section'', ''--standalone'', ''--toc'', ''--number-sections''],
       [''pandoc'', ''uploads/20251013_120000_draft.md'', ''-o'',
        ''output/20251013_120000_draft_IEEE.pdf'', ''--pdf-engine'', ''xelatex'',
        ''ieee_template_proper.tex'',
        ''--standalone'', ''--number-sections'', ''--columns'', ''72'',
        ''-V'', ''geometry:margin=1in'', ''-V'', ''fontsize=10pt'',
        ''-V'', ''documentclass=IEEEtran'', ''-V'', ''classoption=10pt,conference'',
        ''--top-level-division=section'', ''--standalone'', ''--toc'', ''--number-sections'']])"
  by code_simp

section \<open>The job: \<^verbatim>\<open>process_file\<close> and \<^verbatim>\<open>process_conversion\<close>\<close>



text \<open>
  \<^verbatim>\<open>process_file\<close> succeeds when the converter does, unless the email is asked for with
  a recipient and the email section has no \<^verbatim>\<open>to_email\<close> key.
\<close>

lemma process_file_success:
  "pr_success (process_file w cfg i se rcp) =
     (fst (convert_to_ieee_format w cfg i None) \<noteq> [] \<and>
      \<not> (se \<and> rcp \<noteq> None \<and> rcp \<noteq> Some [] \<and> to_email (email cfg) = None))"
  by (auto simp: process_file_def Let_def split: prod.splits option.splits)

lemma process_file_emails:
  assumes "fst (convert_to_ieee_format w cfg i None) \<noteq> []"
    and "rcp = None \<or> rcp = Some [] \<or> to_email (email cfg) \<noteq> None"
  shows "pr_emails (process_file w cfg i True rcp) =
    [snd (send_email w
            (if rcp \<noteq> None \<and> rcp \<noteq> Some [] then with_recipient cfg (the rcp) else cfg)
            (fst (convert_to_ieee_format w cfg i None)) ''Your IEEE Formatted PDF is Ready'')]"
proof (cases "convert_to_ieee_format w cfg i None")
  case (Pair p c)
  with assms(1) have "p \<noteq> []" by simp
  with Pair assms(2) show ?thesis
    by (auto simp: process_file_def Let_def split: prod.splits option.splits)
qed

lemma send_email_attachment: "call_attachment (snd (send_email w cfg p subj)) = p"
  by (simp add: send_email_def Let_def split: option.splits)

text \<open>The converter reads neither the SMTP oracle nor the email section.\<close>

lemma pandoc_cmd_ignores_email:
  "pandoc_cmd (w\<lparr>smtp_error := x\<rparr>) (cfg\<lparr>email := em\<rparr>) i out = pandoc_cmd w cfg i out"
  by (simp add: pandoc_cmd_def template_args_def split: option.split)

lemma default_output_ignores_email:
  "default_output (cfg\<lparr>email := em\<rparr>) i = default_output cfg i"
  by (simp add: default_output_def)

lemma convert_ignores_email:
  "convert_to_ieee_format (w\<lparr>smtp_error := x\<rparr>) (cfg\<lparr>email := em\<rparr>) i out =
   convert_to_ieee_format w cfg i out"
  by (simp add: convert_to_ieee_format_def Let_def pandoc_cmd_ignores_email
      default_output_ignores_email split: proc_result.split)

lemma process_conversion_terminal:
  "status (jr_file (process_conversion w clk cfg sid f opts)) = Completed \<or>
   status (jr_file (process_conversion w clk cfg sid f opts)) = Failed"
  by (auto simp: process_conversion_def try_block_def Let_def
      split: json_options.splits prod.splits option.splits)

text \<open>
  C2. The claim: when the conversion succeeds, \<^verbatim>\<open>pdf_path\<close> is the conversion's computed
  output path. \<^verbatim>\<open>process_file\<close> returns only a boolean; the job then looks for the
  result under the comment \<^verbatim>\<open>Find the generated PDF\<close> and takes the \<^verbatim>\<open>*.pdf\<close> of the
  output directory with the latest \<^verbatim>\<open>getctime\<close>. When another PDF there is newer
  (another job finished a second later), the record and the completed event carry that
  file's path, not the path this conversion wrote to. Here the conversion succeeds
  through the fallback and computes \<^verbatim>\<open>output/20251013_120000_draft_IEEE.pdf\<close>.
\<close>

theorem C2_pdf_path_is_newest_pdf:
  "fst (convert_to_ieee_format race_env default_config (filepath draft_record) None) =
       ''output/20251013_120000_draft_IEEE.pdf''
   \<and> status (jr_file (process_conversion race_env noon default_config ''s1'' draft_record
          (Options_dict (Some False) None))) = Completed
   \<and> pdf_path (jr_file (process_conversion race_env noon default_config ''s1'' draft_record
          (Options_dict (Some False) None))) = Some ''output/20251013_115955_other_IEEE.pdf''
   \<and> map ev_pdf_path (jr_events (process_conversion race_env noon default_config ''s1''
          draft_record (Options_dict (Some False) None))) =
       [None, Some ''output/20251013_115955_other_IEEE.pdf'']"
  by code_simp

text \<open>
  C3. Whatever happens, the job ends with the record completed or failed, never
  processing. When an exception leaves the \<^verbatim>\<open>try\<close> block, the handler sets the status
  to failed, stores the exception's text in \<^verbatim>\<open>error\<close>, and emits a failed event after
  the processing event; \<^verbatim>\<open>process_conversion\<close> itself returns.
\<close>

theorem C3_exception_becomes_failed:
  "(status (jr_file (process_conversion w clk cfg sid f opts)) = Completed \<or>
    status (jr_file (process_conversion w clk cfg sid f opts)) = Failed) \<and>
   (\<forall>e. snd (try_block w clk cfg sid f opts) = Some e \<longrightarrow>
      status (jr_file (process_conversion w clk cfg sid f opts)) = Failed \<and>
      error (jr_file (process_conversion w clk cfg sid f opts)) = Some e \<and>
      jr_events (process_conversion w clk cfg sid f opts) =
        [status_event sid f Processing ''Starting conversion...'' None,
         status_event sid f Failed (''Conversion error: '' @ e) None])"
  by (auto simp: process_conversion_def try_block_def Let_def status_event_def
      split: json_options.splits prod.splits option.splits)

text \<open>
  The request \<^verbatim>\<open>{"options": null}\<close> makes \<^verbatim>\<open>options.get\<close> raise an
  \<^verbatim>\<open>AttributeError\<close> in the thread.
\<close>

theorem C3_witness:
  "snd (try_block quiet_env noon default_config ''s1'' draft_record (Options_other ''NoneType''))
     = Some (attribute_error ''NoneType'')
   \<and> status (jr_file (process_conversion quiet_env noon default_config ''s1'' draft_record
        (Options_other ''NoneType''))) = Failed
   \<and> error (jr_file (process_conversion quiet_env noon default_config ''s1'' draft_record
        (Options_other ''NoneType''))) = Some (attribute_error ''NoneType'')
   \<and> map ev_status (jr_events (process_conversion quiet_env noon default_config ''s1''
        draft_record (Options_other ''NoneType''))) = [Processing, Failed]"
proof -
  have h: "snd (try_block quiet_env noon default_config ''s1'' draft_record
             (Options_other ''NoneType'')) = Some (attribute_error ''NoneType'')"
    by (simp add: try_block_def)
  show ?thesis
    using h C3_exception_becomes_failed [of quiet_env noon default_config "''s1''" draft_record
        "Options_other ''NoneType''"]
    by (simp add: status_event_def)
qed




text \<open>
  With the converter succeeding and the email asked for, \<^verbatim>\<open>process_file\<close> returns
  \<^verbatim>\<open>True\<close> and calls \<^verbatim>\<open>send_email\<close> once, whatever the SMTP dialogue does
  (\<open>smtp\<close>) and whatever the email section holds (\<open>em\<close>), as long as no recipient
  comes with the request or the section has a \<^verbatim>\<open>to_email\<close> key.
\<close>

lemma email_outcome_keeps_success:
  assumes "fst (convert_to_ieee_format w cfg i None) \<noteq> []"
    and "rcp = None \<or> rcp = Some [] \<or> to_email em \<noteq> None"
  shows "pr_success (process_file (w\<lparr>smtp_error := smtp\<rparr>) (cfg\<lparr>email := em\<rparr>) i True rcp)
     \<and> length (pr_emails (process_file (w\<lparr>smtp_error := smtp\<rparr>) (cfg\<lparr>email := em\<rparr>) i True
          rcp)) = 1"
proof -
  have conv: "fst (convert_to_ieee_format (w\<lparr>smtp_error := smtp\<rparr>) (cfg\<lparr>email := em\<rparr>) i None)
      \<noteq> []"
    using assms(1) by (simp add: convert_ignores_email)
  have key: "rcp = None \<or> rcp = Some [] \<or> to_email (email (cfg\<lparr>email := em\<rparr>)) \<noteq> None"
    using assms(2) by simp
  show ?thesis
    using conv key by (auto simp: process_file_success process_file_emails [OF conv key])
qed

text \<open>
  C6. The claim: with the converter succeeding and the email asked for, the job ends
  completed whatever the email dispatch does; an incomplete email configuration never
  changes \<^verbatim>\<open>process_file\<close>'s result. \<^verbatim>\<open>send_email\<close> catches every exception, the
  \<^verbatim>\<open>KeyError\<close> of an absent key included, and its result is ignored. But with a
  recipient in the request, \<^verbatim>\<open>process_file\<close> first reads
  \<^verbatim>\<open>self.config['email']['to_email']\<close> outside \<^verbatim>\<open>send_email\<close>. With an email section
  that has no \<^verbatim>\<open>to_email\<close> key, the converter writes the PDF, the read raises,
  \<^verbatim>\<open>process_file\<close> returns \<^verbatim>\<open>False\<close> without calling \<^verbatim>\<open>send_email\<close>, and the job ends
  failed with the error \<^verbatim>\<open>Conversion failed\<close>.
\<close>

theorem C6_missing_recipient_key_fails_job:
  "fst (convert_to_ieee_format pdf_env no_recipient_config (filepath draft_record) None) =
       ''output/20251013_120000_draft_IEEE.pdf''
   \<and> \<not> pr_success (process_file pdf_env no_recipient_config (filepath draft_record) True
          (Some ''reader@example.org''))
   \<and> pr_emails (process_file pdf_env no_recipient_config (filepath draft_record) True
          (Some ''reader@example.org'')) = []
   \<and> status (jr_file (process_conversion pdf_env noon no_recipient_config ''s1'' draft_record
          (Options_dict (Some True) (Some ''reader@example.org'')))) = Failed
   \<and> error (jr_file (process_conversion pdf_env noon no_recipient_config ''s1'' draft_record
          (Options_dict (Some True) (Some ''reader@example.org'')))) = Some ''Conversion failed''"
  by code_simp

text \<open>
  The same configuration without a recipient in the request: the absent key is met
  inside \<^verbatim>\<open>send_email\<close>, which catches the \<^verbatim>\<open>KeyError\<close>, and the job ends completed.
\<close>

lemma missing_recipient_key_without_override:
  "map call_outcome (jr_emails (process_conversion pdf_env noon no_recipient_config ''s1''
        draft_record (Options_dict (Some True) None))) = [Email_failed (key_error ''to_email'')]
   \<and> status (jr_file (process_conversion pdf_env noon no_recipient_config ''s1'' draft_record
        (Options_dict (Some True) None))) = Completed"
  by code_simp

text \<open>
  And with the email section complete and the SMTP server refusing the connection, or
  with the empty email section of the default configuration, the job ends completed.
\<close>

lemma smtp_failure_keeps_completed:
  "map call_outcome (jr_emails (process_conversion smtp_down_env noon mail_config ''s1''
        draft_record (Options_dict (Some True) None))) =
       [Email_failed ''[Errno 111] Connection refused'']
   \<and> status (jr_file (process_conversion smtp_down_env noon mail_config ''s1'' draft_record
        (Options_dict (Some True) None))) = Completed
   \<and> map call_outcome (jr_emails (process_conversion pdf_env noon default_config ''s1''
        draft_record (Options_dict None None))) = [Incomplete_config]
   \<and> status (jr_file (process_conversion pdf_env noon default_config ''s1'' draft_record
        (Options_dict None None))) = Completed"
  by code_simp

text \<open>
  A job whose options have no \<^verbatim>\<open>send_email\<close> key does what the job with
  \<^verbatim>\<open>send_email\<close> true does. When the converter succeeds, and no recipient comes with
  the request or the email section has a \<^verbatim>\<open>to_email\<close> key, it calls \<^verbatim>\<open>send_email\<close>
  once, with the converter's output path as the attachment. A request without
  \<^verbatim>\<open>options\<close> starts its thread, if it starts one, with the empty object.
\<close>

lemma job_without_send_email_key:
  "process_conversion w clk cfg sid f (Options_dict None rcp) =
     process_conversion w clk cfg sid f (Options_dict (Some True) rcp)"
  by (simp add: process_conversion_def try_block_def)

lemma job_without_send_email_key_sends:
  assumes ok: "fst (convert_to_ieee_format w cfg (filepath f) None) \<noteq> []"
    and key: "rcp = None \<or> rcp = Some [] \<or> to_email (email cfg) \<noteq> None"
  shows "map call_attachment
           (jr_emails (process_conversion w clk cfg sid f (Options_dict None rcp))) =
         [fst (convert_to_ieee_format w cfg (filepath f) None)]"
proof -
  have "map call_attachment (pr_emails (process_file w cfg (filepath f) True rcp)) =
          [fst (convert_to_ieee_format w cfg (filepath f) None)]"
    by (simp add: process_file_emails [OF ok key] send_email_attachment)
  moreover have "pr_success (process_file w cfg (filepath f) True rcp)"
    using ok key by (auto simp: process_file_success)
  ultimately show ?thesis
    by (simp add: process_conversion_def try_block_def Let_def)
qed

lemma request_without_options:
  assumes "cr_options req = None"
  shows "threads (snd (convert_file clk req s)) = threads s \<or>
        (\<exists>i. threads (snd (convert_file clk req s)) =
               threads s @ [\<lparr>job_session_id = the (cr_session_id req), job_file = i,
                              job_options = Options_dict None None\<rparr>])"
  using assms
  by (auto simp: convert_file_def get_session_def Let_def split: option.splits prod.splits)

text \<open>
  C8. The claim: a job whose options have no \<^verbatim>\<open>send_email\<close> key behaves as if it were
  true, and after a successful conversion invokes the email dispatcher. The default is
  true: the job is the job with \<^verbatim>\<open>send_email\<close> true. But the options
  \<^verbatim>\<open>{"email_recipient": "reader@example.org"}\<close>, which have no \<^verbatim>\<open>send_email\<close> key, with
  an email section that has no \<^verbatim>\<open>to_email\<close> key, meet the read of
  \<^verbatim>\<open>self.config['email']['to_email']\<close> that stands outside \<^verbatim>\<open>send_email\<close>: the converter
  succeeds, \<^verbatim>\<open>send_email\<close> is not called, and the job ends failed.
\<close>

theorem C8_default_true_but_dispatcher_not_called:
  "fst (convert_to_ieee_format pdf_env no_recipient_config (filepath draft_record) None) =
       ''output/20251013_120000_draft_IEEE.pdf''
   \<and> process_conversion pdf_env noon no_recipient_config ''s1'' draft_record
          (Options_dict None (Some ''reader@example.org''))
     = process_conversion pdf_env noon no_recipient_config ''s1'' draft_record
          (Options_dict (Some True) (Some ''reader@example.org''))
   \<and> jr_emails (process_conversion pdf_env noon no_recipient_config ''s1'' draft_record
          (Options_dict None (Some ''reader@example.org''))) = []
   \<and> status (jr_file (process_conversion pdf_env noon no_recipient_config ''s1'' draft_record
          (Options_dict None (Some ''reader@example.org'')))) = Failed"
  by code_simp

section \<open>Requests: \<^verbatim>\<open>convert_file\<close> and \<^verbatim>\<open>dismiss_update\<close>\<close>

lemma find_file_None: "(find_file fs name = None) = (name \<notin> filename ` set fs)"
  by (induction fs) (auto split: option.splits)

lemma find_file_Some:
  "find_file fs name = Some i \<Longrightarrow> i < length fs \<and> filename (fs ! i) = name"
  by (induction fs arbitrary: i) (auto split: option.splits if_splits)

lemma get_session_cases:
  assumes "get_session clk sid s = (ss, s1)"
  shows "(sessions s sid = Some ss \<and> s1 = s) \<or>
         (sessions s sid = None \<and> files ss = [] \<and> dismissed_updates ss = [] \<and>
          s1 = s\<lparr>sessions := (sessions s)(sid \<mapsto> ss)\<rparr>)"
  using assms by (auto simp: get_session_def Let_def split: option.splits)

lemma get_record_get_session:
  "get_record (snd (get_session clk sid s)) sid' i = get_record s sid' i"
  by (auto simp: get_session_def get_record_def Let_def split: option.splits)

text \<open>
  C7. A convert request that carries a session id and a filename (the endpoint answers
  400 before any lookup when one of them is missing or empty), and whose filename is
  the filename of no record of that session, is answered with 404. It emits no event
  and starts no thread, runs no command and sends no email, and every record of every
  session is what it was; the only change is that the session now exists, empty, when
  it did not.
\<close>

theorem C7_unknown_filename_is_not_found:
  assumes "cr_session_id req = Some sid" and "sid \<noteq> []"
    and "cr_filename req = Some name" and "name \<noteq> []"
    and "\<forall>ss. sessions s sid = Some ss \<longrightarrow> name \<notin> filename ` set (files ss)"
  shows "fst (convert_file clk req s) = Error 404 ''File not found in session''
     \<and> events (snd (convert_file clk req s)) = events s
     \<and> threads (snd (convert_file clk req s)) = threads s
     \<and> commands (snd (convert_file clk req s)) = commands s
     \<and> emails (snd (convert_file clk req s)) = emails s
     \<and> (\<forall>sid' i. get_record (snd (convert_file clk req s)) sid' i = get_record s sid' i)"
proof (cases "get_session clk sid s")
  case (Pair ss s1)
  from get_session_cases [OF Pair] assms(5)
  have nf: "find_file (files ss) name = None"
    by (auto simp: find_file_None)
  have rec: "\<And>sid' i. get_record s1 sid' i = get_record s sid' i"
    using get_record_get_session [of clk sid s] Pair by simp
  have same: "events s1 = events s \<and> threads s1 = threads s \<and> commands s1 = commands s
      \<and> emails s1 = emails s"
    using get_session_cases [OF Pair] by auto
  show ?thesis
    using assms(1-4) Pair nf rec same
    by (simp add: convert_file_def falsy_def Let_def)
qed

text \<open>
  After \<^verbatim>\<open>draft.md\<close> was uploaded to session \<^verbatim>\<open>s1\<close> and converted, a request names
  its filename and the unknown session \<^verbatim>\<open>s9\<close>.
\<close>

theorem C7_witness:
  "fst (convert_file noon unknown_request (run (initial_state default_config) converted_once))
     = Error 404 ''File not found in session''
   \<and> events (snd (convert_file noon unknown_request
        (run (initial_state default_config) converted_once)))
     = events (run (initial_state default_config) converted_once)
   \<and> threads (snd (convert_file noon unknown_request
        (run (initial_state default_config) converted_once))) = []
   \<and> get_record (snd (convert_file noon unknown_request
        (run (initial_state default_config) converted_once))) ''s1'' 0
     = get_record (run (initial_state default_config) converted_once) ''s1'' 0"
proof -
  have h1: "cr_session_id unknown_request = Some ''s9''"
    "cr_filename unknown_request = Some ''20251013_120000_draft.md''"
    by (simp_all add: unknown_request_def)
  have h2: "\<forall>ss. sessions (run (initial_state default_config) converted_once) ''s9'' = Some ss
      \<longrightarrow> ''20251013_120000_draft.md'' \<notin> filename ` set (files ss)"
  proof -
    have "sessions (run (initial_state default_config) converted_once) ''s9'' = None"
      by code_simp
    then show ?thesis by simp
  qed
  have t: "threads (run (initial_state default_config) converted_once) = []"
    by code_simp
  show ?thesis
    using C7_unknown_filename_is_not_found [OF h1(1) _ h1(2) _ h2, of noon] t by simp
qed

subsection \<open>Dismissed updates\<close>

lemma dismissed_of_dismiss:
  assumes "dr_session_id req = Some sid" "sid \<noteq> []" "dr_update_id req = Some u" "u \<noteq> []"
  shows "dismissed_of (snd (dismiss_update clk req s)) sid' =
    (if sid' = sid \<and> u \<notin> set (dismissed_of s sid) then dismissed_of s sid @ [u]
     else dismissed_of s sid')"
  using assms
  by (auto simp: dismiss_update_def dismissed_of_def get_session_def falsy_def Let_def
      split: option.splits)

lemma dismissed_of_dismiss_any:
  "dismissed_of (snd (dismiss_update clk req s)) sid' = dismissed_of s sid' \<or>
   (\<exists>u. u \<notin> set (dismissed_of s sid') \<and>
        dismissed_of (snd (dismiss_update clk req s)) sid' = dismissed_of s sid' @ [u])"
  by (auto simp: dismiss_update_def dismissed_of_def get_session_def falsy_def Let_def
      split: option.splits)

lemma dismissed_of_upload:
  "dismissed_of (snd (upload_file w clk req s)) sid' = dismissed_of s sid'"
  by (auto simp: upload_file_def dismissed_of_def get_session_def Let_def
      split: option.splits prod.splits)

lemma dismissed_of_convert:
  "dismissed_of (snd (convert_file clk req s)) sid' = dismissed_of s sid'"
  by (auto simp: convert_file_def dismissed_of_def get_session_def Let_def
      split: option.splits prod.splits)

lemma dismissed_of_session_info:
  "dismissed_of (snd (get_session_info clk sid s)) sid' = dismissed_of s sid'"
  by (auto simp: get_session_info_def dismissed_of_def get_session_def Let_def
      split: option.splits prod.splits)

lemma dismissed_of_run_thread:
  "dismissed_of (run_thread w clk k s) sid' = dismissed_of s sid'"
  by (auto simp: run_thread_def dismissed_of_def put_record_def Let_def
      split: option.splits prod.splits)

text \<open>No step of the program puts an id twice into a session's list.\<close>

lemma distinct_step:
  assumes "distinct (dismissed_of s sid)"
  shows "distinct (dismissed_of (step s x) sid)"
proof (cases x)
  case (Dismiss clk req)
  from dismissed_of_dismiss_any [of clk req s sid] assms Dismiss show ?thesis by auto
qed (simp_all add: assms dismissed_of_upload dismissed_of_convert dismissed_of_session_info
    dismissed_of_run_thread)

lemma distinct_run: "distinct (dismissed_of s sid) \<Longrightarrow> distinct (dismissed_of (run s ops) sid)"
  unfolding run_def by (induction ops arbitrary: s) (simp_all add: distinct_step)

lemma distinct_reachable: "distinct (dismissed_of (run (initial_state cfg) ops) sid)"
  by (rule distinct_run) (simp add: dismissed_of_def initial_state_def)

lemma count_list_distinct:
  "distinct xs \<Longrightarrow> count_list xs u = (if u \<in> set xs then 1 else 0)"
  by (induction xs) auto

lemma dismiss_twice:
  assumes "dr_session_id req = Some sid" "sid \<noteq> []" "dr_update_id req = Some u" "u \<noteq> []"
  shows "snd (dismiss_update clk2 req (snd (dismiss_update clk1 req s))) =
         snd (dismiss_update clk1 req s)"
  using assms
  by (auto simp: dismiss_update_def get_session_def falsy_def Let_def fun_upd_idem
      split: option.splits)

lemma dismiss_again:
  assumes "dr_session_id req = Some sid" "sid \<noteq> []" "dr_update_id req = Some u" "u \<noteq> []"
  shows "run (step s (Dismiss c req)) (map (\<lambda>clk. Dismiss clk req) cs) = step s (Dismiss c req)"
  unfolding run_def
  by (induction cs) (simp_all add: dismiss_twice [OF assms])

text \<open>
  C10. In any state the program can reach (any run \<open>ops\<close> from its start), dismissing
  the same update id for the same session two or more times, one request per element
  of \<open>clks\<close>, leaves that id exactly once in the session's list, and leaves the state
  the first of these requests left. The request carries both ids (the endpoint answers
  400 and records nothing when one is missing or empty).
\<close>

theorem C10_dismiss_is_idempotent:
  assumes "dr_session_id req = Some sid" and "sid \<noteq> []"
    and "dr_update_id req = Some u" and "u \<noteq> []" and "2 \<le> length clks"
  shows "count_list (dismissed_of (run (run (initial_state cfg) ops)
             (map (\<lambda>clk. Dismiss clk req) clks)) sid) u = 1
     \<and> run (run (initial_state cfg) ops) (map (\<lambda>clk. Dismiss clk req) clks) =
       step (run (initial_state cfg) ops) (Dismiss (hd clks) req)"
proof -
  obtain c cs where clks: "clks = c # cs"
    using assms(5) by (cases clks) auto
  let ?s = "run (initial_state cfg) ops"
  have once: "run ?s (map (\<lambda>clk. Dismiss clk req) clks) = step ?s (Dismiss c req)"
    using dismiss_again [OF assms(1-4), of ?s c cs] by (simp add: clks run_def)
  have d: "distinct (dismissed_of ?s sid)"
    by (rule distinct_reachable)
  have "count_list (dismissed_of (step ?s (Dismiss c req)) sid) u = 1"
    using d by (simp add: dismissed_of_dismiss [OF assms(1-4)] count_list_distinct)
  with once show ?thesis by (simp add: clks)
qed

theorem C10_witness:
  "count_list (dismissed_of (run (run (initial_state default_config) converted_once)
       [Dismiss noon dismiss_v110, Dismiss noon dismiss_v110, Dismiss noon dismiss_v110])
       ''s1'') ''v1.1.0'' = 1
   \<and> dismissed_of (run (run (initial_state default_config) converted_once)
       [Dismiss noon dismiss_v110, Dismiss noon dismiss_v110, Dismiss noon dismiss_v110])
       ''s1'' = [''v1.1.0'']"
proof -
  have h: "dr_session_id dismiss_v110 = Some ''s1''" "dr_update_id dismiss_v110 = Some ''v1.1.0''"
    by (simp_all add: dismiss_v110_def)
  have e: "dismissed_of (run (run (initial_state default_config) converted_once)
       [Dismiss noon dismiss_v110, Dismiss noon dismiss_v110, Dismiss noon dismiss_v110])
       ''s1'' = [''v1.1.0'']"
    by code_simp
  show ?thesis
    using e C10_dismiss_is_idempotent [OF h(1) _ h(2), of "[noon, noon, noon]" default_config
        converted_once]
    by simp
qed


section \<open>\<^verbatim>\<open>download_file\<close>\<close>

text \<open>
  C9. The claim: the endpoint serves the file of that name in the configured output
  directory, or answers not found, and serves no file outside that directory. The
  route takes a path (\<^verbatim>\<open><path:filename>\<close>) and the code joins it to \<^verbatim>\<open>output\<close>
  unchecked, where the upload endpoint passes its filename through
  \<^verbatim>\<open>secure_filename\<close>. With the application's own \<^verbatim>\<open>config.json\<close> beside its output
  directory, the filename \<^verbatim>\<open>../config.json\<close> is served: the file at
  \<^verbatim>\<open>output/../config.json\<close>, which is \<^verbatim>\<open>config.json\<close>, outside the directory.
\<close>

theorem C9_download_serves_outside_output:
  "download_file served_env ''../config.json'' = Attachment ''output/../config.json''
   \<and> posix_normpath ''output/../config.json'' = ''config.json''"
  by code_simp

text \<open>
  The directory is the literal \<^verbatim>\<open>output\<close>, not the configured one: with another
  directory configured, a converted file is written there and is not found here.
\<close>

lemma download_ignores_configured_directory:
  "default_output (default_config\<lparr>output_directory := ''pdfs''\<rparr>)
       ''uploads/20251013_120000_draft.md'' = ''pdfs/20251013_120000_draft_IEEE.pdf''
   \<and> download_file
        (quiet_env\<lparr>path_exists := (\<lambda>p. p = ''pdfs/20251013_120000_draft_IEEE.pdf'')\<rparr>)
        ''20251013_120000_draft_IEEE.pdf'' = Error 404 ''File not found''"
  by code_simp

section \<open>The status of a record over a run\<close>

subsection \<open>What each step does to the records and the threads\<close>

lemma convert_file_no_target:
  assumes "convert_target s req = None"
  shows "threads (snd (convert_file clk req s)) = threads s"
    and "get_record (snd (convert_file clk req s)) sid i = get_record s sid i"
  using assms
  by (auto simp: convert_target_def convert_file_def get_session_def get_record_def Let_def
      split: option.splits if_splits)

lemma convert_file_target:
  assumes "convert_target s req = Some (sid0, i0)"
  shows "\<exists>f opts. get_record s sid0 i0 = Some f \<and>
      threads (snd (convert_file clk req s)) =
        threads s @ [\<lparr>job_session_id = sid0, job_file = i0, job_options = opts\<rparr>] \<and>
      (\<forall>sid i. get_record (snd (convert_file clk req s)) sid i =
         (if sid = sid0 \<and> i = i0 then Some (f\<lparr>status := Processing\<rparr>) else get_record s sid i))"
  using assms
  by (auto simp: convert_target_def convert_file_def get_session_def get_record_def Let_def
      dest: find_file_Some split: option.splits if_splits)

lemma upload_file_effect:
  "threads (snd (upload_file w clk req s)) = threads s"
  "get_record s sid i = Some f \<Longrightarrow> get_record (snd (upload_file w clk req s)) sid i = Some f"
  "get_record s sid i = None \<Longrightarrow> get_record (snd (upload_file w clk req s)) sid i = None \<or>
     (\<exists>f. get_record (snd (upload_file w clk req s)) sid i = Some f \<and> status f = Uploaded)"
  by (auto simp: upload_file_def get_session_def get_record_def Let_def nth_append
      split: option.splits if_splits)

lemma session_info_effect:
  "threads (snd (get_session_info clk sid0 s)) = threads s"
  "get_record (snd (get_session_info clk sid0 s)) sid i = get_record s sid i"
  by (auto simp: get_session_info_def get_session_def get_record_def Let_def split: option.splits)

lemma dismiss_effect:
  "threads (snd (dismiss_update clk req s)) = threads s"
  "get_record (snd (dismiss_update clk req s)) sid i = get_record s sid i"
  by (auto simp: dismiss_update_def get_session_def get_record_def Let_def split: option.splits)

lemma process_conversion_not_failed:
  "(status (jr_file (process_conversion w clk cfg sid f opts)) \<noteq> Failed) =
   (status (jr_file (process_conversion w clk cfg sid f opts)) = Completed)"
  using process_conversion_terminal [of w clk cfg sid f opts] by auto

lemma run_thread_idle: "\<not> k < length (threads s) \<Longrightarrow> run_thread w clk k s = s"
  by (simp add: run_thread_def)

lemma run_thread_effect:
  assumes "k < length (threads s)"
  shows "threads (run_thread w clk k s) = drop_nth k (threads s)"
    and "sid \<noteq> job_session_id (threads s ! k) \<or> i \<noteq> job_file (threads s ! k) \<Longrightarrow>
          get_record (run_thread w clk k s) sid i = get_record s sid i"
    and "get_record s (job_session_id (threads s ! k)) (job_file (threads s ! k)) = None \<Longrightarrow>
          get_record (run_thread w clk k s) sid i = get_record s sid i"
    and "get_record s (job_session_id (threads s ! k)) (job_file (threads s ! k)) = Some f \<Longrightarrow>
          \<exists>f'. get_record (run_thread w clk k s) (job_session_id (threads s ! k))
                 (job_file (threads s ! k)) = Some f' \<and>
               (status f' = Completed \<or> status f' = Failed)"
  using assms
  by (auto simp: run_thread_def put_record_def get_record_def Let_def
      process_conversion_not_failed split: option.splits if_splits)

lemma status_of_run_thread_other:
  assumes "k < length (threads s)" and "(sid, i) \<noteq> job_ref (threads s ! k)"
  shows "status_of (run_thread w clk k s) sid i = status_of s sid i"
  using assms run_thread_effect(2) [OF assms(1), of sid i w clk]
  by (auto simp: status_of_def job_ref_def)

lemma status_of_run_thread_any:
  assumes "status_of s sid i = Some a" and "a \<noteq> Uploaded"
  shows "\<exists>b. status_of (run_thread w clk k s) sid i = Some b \<and> b \<noteq> Uploaded"
proof (cases "k < length (threads s)")
  case False
  with assms show ?thesis by (simp add: run_thread_idle)
next
  case True
  show ?thesis
  proof (cases "(sid, i) = job_ref (threads s ! k)")
    case False
    from status_of_run_thread_other [OF True False] assms show ?thesis by simp
  next
    case same: True
    from assms obtain f where f: "get_record s sid i = Some f"
      by (auto simp: status_of_def)
    from run_thread_effect(4) [OF True, of f w clk] f same
    obtain f' where "get_record (run_thread w clk k s) sid i = Some f'"
      and "status f' = Completed \<or> status f' = Failed"
      by (auto simp: job_ref_def)
    then show ?thesis by (auto simp: status_of_def)
  qed
qed

lemma drop_nth_distinct:
  assumes "distinct (map g xs)" and "k < length xs"
  shows "distinct (map g (drop_nth k xs))"
    and "x \<in> set (drop_nth k xs) \<Longrightarrow> g x \<noteq> g (xs ! k)"
proof -
  have xs: "xs = take k xs @ xs ! k # drop (Suc k) xs"
    using assms(2) by (rule id_take_nth_drop)
  have d: "distinct (map g (take k xs @ xs ! k # drop (Suc k) xs))"
    using assms(1) xs by simp
  from d show "distinct (map g (drop_nth k xs))"
    by (auto simp: drop_nth_def)
  from d show "x \<in> set (drop_nth k xs) \<Longrightarrow> g x \<noteq> g (xs ! k)"
    by (auto simp: drop_nth_def image_iff)
qed

subsection \<open>The invariants, and the steps they allow\<close>

lemma lifecycle_step_refl [simp]: "lifecycle_step a a"
  by (cases a) auto

lemma one_thread_each_step:
  assumes inv: "one_thread_each s" and fc: "first_conversion s x"
  shows "one_thread_each (step s x)"
proof (cases x)
  case (Upload w clk req)
  have "\<And>j. status_of s (job_session_id j) (job_file j) = Some Processing \<Longrightarrow>
        status_of (snd (upload_file w clk req s)) (job_session_id j) (job_file j) = Some Processing"
    using upload_file_effect(2) [of s _ _ _ w clk req] by (auto simp: status_of_def)
  with inv Upload show ?thesis
    by (auto simp: one_thread_each_def upload_file_effect(1))
next
  case (Convert clk req)
  show ?thesis
  proof (cases "convert_target s req")
    case None
    with inv Convert show ?thesis
      by (simp add: one_thread_each_def status_of_def convert_file_no_target)
  next
    case (Some t)
    obtain sid0 i0 where t: "t = (sid0, i0)" by (cases t)
    from fc Convert Some t have up: "status_of s sid0 i0 = Some Uploaded" by simp
    from convert_file_target [of s req sid0 i0 clk] Some t
    obtain f opts where f: "get_record s sid0 i0 = Some f"
      and th: "threads (snd (convert_file clk req s)) =
                 threads s @ [\<lparr>job_session_id = sid0, job_file = i0, job_options = opts\<rparr>]"
      and rec: "\<And>sid i. get_record (snd (convert_file clk req s)) sid i =
         (if sid = sid0 \<and> i = i0 then Some (f\<lparr>status := Processing\<rparr>) else get_record s sid i)"
      by auto
    have old: "\<And>j. j \<in> set (threads s) \<Longrightarrow> job_ref j \<noteq> (sid0, i0)"
      using inv up by (auto simp: one_thread_each_def job_ref_def)
    show ?thesis
      using inv old Convert
      by (auto simp: one_thread_each_def th rec status_of_def job_ref_def)
  qed
next
  case (Run_thread w clk k)
  show ?thesis
  proof (cases "k < length (threads s)")
    case False
    with inv Run_thread show ?thesis by (simp add: run_thread_idle)
  next
    case True
    from inv have d: "distinct (map job_ref (threads s))"
      by (simp add: one_thread_each_def)
    have "\<And>j. j \<in> set (drop_nth k (threads s)) \<Longrightarrow>
        status_of (run_thread w clk k s) (job_session_id j) (job_file j) = Some Processing"
    proof -
      fix j assume j: "j \<in> set (drop_nth k (threads s))"
      then have "j \<in> set (threads s)"
        by (auto simp: drop_nth_def dest: in_set_takeD in_set_dropD)
      with inv have p: "status_of s (job_session_id j) (job_file j) = Some Processing"
        by (simp add: one_thread_each_def)
      from drop_nth_distinct(2) [OF d True j]
      have "(job_session_id j, job_file j) \<noteq> job_ref (threads s ! k)"
        by (simp add: job_ref_def)
      from status_of_run_thread_other [OF True this] p
      show "status_of (run_thread w clk k s) (job_session_id j) (job_file j) = Some Processing"
        by simp
    qed
    with Run_thread True drop_nth_distinct(1) [OF d True] show ?thesis
      by (simp add: one_thread_each_def run_thread_effect(1))
  qed
next
  case (Download w name)
  with inv show ?thesis by simp
next
  case (Session_info clk sid0)
  with inv show ?thesis
    by (simp add: one_thread_each_def status_of_def session_info_effect)
next
  case (Dismiss clk req)
  with inv show ?thesis
    by (simp add: one_thread_each_def status_of_def dismiss_effect)
qed

lemma lifecycle_of_step:
  assumes inv: "one_thread_each s" and fc: "first_conversion s x"
  shows "lifecycle_step (status_of s sid i) (status_of (step s x) sid i)"
proof (cases x)
  case (Upload w clk req)
  show ?thesis
  proof (cases "get_record s sid i")
    case None
    from upload_file_effect(3) [OF None, of w clk req] None Upload show ?thesis
      by (auto simp: status_of_def)
  next
    case (Some f)
    from upload_file_effect(2) [OF Some, of w clk req] Some Upload show ?thesis
      by (simp add: status_of_def)
  qed
next
  case (Convert clk req)
  show ?thesis
  proof (cases "convert_target s req")
    case None
    with Convert show ?thesis
      by (simp add: status_of_def convert_file_no_target)
  next
    case (Some t)
    obtain sid0 i0 where t: "t = (sid0, i0)" by (cases t)
    from fc Convert Some t have up: "status_of s sid0 i0 = Some Uploaded" by simp
    from convert_file_target [of s req sid0 i0 clk] Some t
    obtain f opts where f: "get_record s sid0 i0 = Some f"
      and rec: "\<And>sid i. get_record (snd (convert_file clk req s)) sid i =
         (if sid = sid0 \<and> i = i0 then Some (f\<lparr>status := Processing\<rparr>) else get_record s sid i)"
      by auto
    show ?thesis
      using up f Convert by (auto simp: status_of_def rec)
  qed
next
  case (Run_thread w clk k)
  show ?thesis
  proof (cases "k < length (threads s)")
    case False
    with Run_thread show ?thesis by (simp add: run_thread_idle)
  next
    case True
    show ?thesis
    proof (cases "(sid, i) = job_ref (threads s ! k)")
      case False
      from status_of_run_thread_other [OF True False] Run_thread show ?thesis by simp
    next
      case same: True
      from inv True have p: "status_of s sid i = Some Processing"
        using same by (auto simp: one_thread_each_def job_ref_def)
      then obtain f where f: "get_record s sid i = Some f"
        by (auto simp: status_of_def)
      from run_thread_effect(4) [OF True, of f w clk] f same
      obtain f' where "get_record (run_thread w clk k s) sid i = Some f'"
        and "status f' = Completed \<or> status f' = Failed"
        by (auto simp: job_ref_def)
      with p Run_thread show ?thesis
        by (auto simp: status_of_def)
    qed
  qed
next
  case (Download w name)
  then show ?thesis by simp
next
  case (Session_info clk sid0)
  then show ?thesis by (simp add: status_of_def session_info_effect)
next
  case (Dismiss clk req)
  then show ?thesis by (simp add: status_of_def dismiss_effect)
qed

lemma one_thread_each_initial: "one_thread_each (initial_state cfg)"
  by (simp add: one_thread_each_def initial_state_def)

lemma first_conversions_append:
  "first_conversions s (xs @ ys) = (first_conversions s xs \<and> first_conversions (run s xs) ys)"
  by (induction xs arbitrary: s) (simp_all add: run_def)

lemma one_thread_each_run:
  "one_thread_each s \<Longrightarrow> first_conversions s ops \<Longrightarrow> one_thread_each (run s ops)"
  by (induction ops arbitrary: s) (simp_all add: run_def one_thread_each_step)

lemma lifecycle_prefix_iff:
  "lifecycle_prefix h =
     (h \<in> set [[], [Uploaded], [Uploaded, Processing], [Uploaded, Processing, Completed],
                [Uploaded, Processing, Failed]])"
  by (auto simp: lifecycle_prefix_def in_set_prefixes [symmetric])

lemma may_follow_cons:
  assumes "lifecycle_step a a'" and "may_follow a' (values_taken (a' # r))"
  shows "may_follow a (values_taken (a # a' # r))"
proof (cases a)
  case None
  with assms show ?thesis
    by (cases a') (auto simp: lifecycle_prefix_iff split: list.splits if_splits)
next
  case (Some v)
  with assms obtain v' where a': "a' = Some v'" by (cases a') auto
  show ?thesis
    using assms Some a'
    by (cases v; cases v') (auto split: list.splits if_splits)
qed

lemma statuses_head: "\<exists>r. statuses s ops sid i = status_of s sid i # r"
  by (cases ops) auto

lemma may_follow_single: "may_follow a (values_taken [a])"
proof (cases a)
  case None
  then show ?thesis by (simp add: lifecycle_prefix_iff)
next
  case (Some v)
  then show ?thesis by (cases v) auto
qed

lemma may_follow_run:
  assumes "one_thread_each s" and "first_conversions s ops"
  shows "may_follow (status_of s sid i) (values_taken (statuses s ops sid i))"
  using assms
proof (induction ops arbitrary: s)
  case Nil
  show ?case by (simp add: may_follow_single)
next
  case (Cons x xs)
  from Cons.prems have fc: "first_conversion s x" and rest: "first_conversions (step s x) xs"
    by simp_all
  from one_thread_each_step [OF Cons.prems(1) fc] have inv': "one_thread_each (step s x)" .
  from statuses_head [of "step s x" xs sid i]
  obtain r where r: "statuses (step s x) xs sid i = status_of (step s x) sid i # r" by auto
  from Cons.IH [OF inv' rest]
  have "may_follow (status_of (step s x) sid i) (values_taken (status_of (step s x) sid i # r))"
    by (simp add: r)
  from may_follow_cons [OF lifecycle_of_step [OF Cons.prems(1) fc] this]
  show ?case by (simp add: r)
qed

lemma lifecycle_of_first_conversions:
  assumes "first_conversions (initial_state cfg) ops"
  shows "lifecycle_prefix (values_taken (statuses (initial_state cfg) ops sid i))"
proof -
  have "status_of (initial_state cfg) sid i = None"
    by (simp add: status_of_def get_record_def initial_state_def)
  with may_follow_run [OF one_thread_each_initial assms, of sid i] show ?thesis by simp
qed


lemma past_upload_step:
  assumes inv: "threads_past_upload s"
  shows "threads_past_upload (step s x)"
proof (cases x)
  case (Upload w clk req)
  have "\<And>j a. status_of s (job_session_id j) (job_file j) = Some a \<Longrightarrow>
        status_of (snd (upload_file w clk req s)) (job_session_id j) (job_file j) = Some a"
    using upload_file_effect(2) [of s _ _ _ w clk req] by (auto simp: status_of_def)
  with inv Upload show ?thesis
    by (fastforce simp: threads_past_upload_def upload_file_effect(1))
next
  case (Convert clk req)
  show ?thesis
  proof (cases "convert_target s req")
    case None
    with inv Convert show ?thesis
      by (simp add: threads_past_upload_def status_of_def convert_file_no_target)
  next
    case (Some t)
    obtain sid0 i0 where t: "t = (sid0, i0)" by (cases t)
    from convert_file_target [of s req sid0 i0 clk] Some t
    obtain f opts where f: "get_record s sid0 i0 = Some f"
      and th: "threads (snd (convert_file clk req s)) =
                 threads s @ [\<lparr>job_session_id = sid0, job_file = i0, job_options = opts\<rparr>]"
      and rec: "\<And>sid i. get_record (snd (convert_file clk req s)) sid i =
         (if sid = sid0 \<and> i = i0 then Some (f\<lparr>status := Processing\<rparr>) else get_record s sid i)"
      by auto
    show ?thesis
      using inv Convert
      by (auto simp: threads_past_upload_def th rec status_of_def)
  qed
next
  case (Run_thread w clk k)
  have sub: "\<And>j. j \<in> set (threads (run_thread w clk k s)) \<Longrightarrow> j \<in> set (threads s)"
    by (cases "k < length (threads s)")
      (auto simp: run_thread_effect(1) run_thread_idle drop_nth_def
        dest: in_set_takeD in_set_dropD)
  show ?thesis
    using inv Run_thread sub status_of_run_thread_any [of s _ _ _ w clk k]
    by (fastforce simp: threads_past_upload_def)
next
  case (Download w name)
  with inv show ?thesis by simp
next
  case (Session_info clk sid0)
  with inv show ?thesis
    by (simp add: threads_past_upload_def status_of_def session_info_effect)
next
  case (Dismiss clk req)
  with inv show ?thesis
    by (simp add: threads_past_upload_def status_of_def dismiss_effect)
qed

lemma past_upload_run: "threads_past_upload s \<Longrightarrow> threads_past_upload (run s ops)"
  unfolding run_def by (induction ops arbitrary: s) (simp_all add: past_upload_step)

lemma past_upload_reachable: "threads_past_upload (run (initial_state cfg) ops)"
  by (rule past_upload_run) (simp add: threads_past_upload_def initial_state_def)

lemma permitted_step_refl [simp]: "permitted_step a a"
  by (cases a) auto

lemma permitted_of_step:
  assumes inv: "threads_past_upload s"
  shows "permitted_step (status_of s sid i) (status_of (step s x) sid i)"
proof (cases x)
  case (Upload w clk req)
  show ?thesis
  proof (cases "get_record s sid i")
    case None
    from upload_file_effect(3) [OF None, of w clk req] None Upload show ?thesis
      by (auto simp: status_of_def)
  next
    case (Some f)
    from upload_file_effect(2) [OF Some, of w clk req] Some Upload show ?thesis
      by (simp add: status_of_def)
  qed
next
  case (Convert clk req)
  show ?thesis
  proof (cases "convert_target s req")
    case None
    with Convert show ?thesis
      by (simp add: status_of_def convert_file_no_target)
  next
    case (Some t)
    obtain sid0 i0 where t: "t = (sid0, i0)" by (cases t)
    from convert_file_target [of s req sid0 i0 clk] Some t
    obtain f opts where f: "get_record s sid0 i0 = Some f"
      and rec: "\<And>sid i. get_record (snd (convert_file clk req s)) sid i =
         (if sid = sid0 \<and> i = i0 then Some (f\<lparr>status := Processing\<rparr>) else get_record s sid i)"
      by auto
    show ?thesis
      using f Convert by (auto simp: status_of_def rec)
  qed
next
  case (Run_thread w clk k)
  show ?thesis
  proof (cases "k < length (threads s)")
    case False
    with Run_thread show ?thesis by (simp add: run_thread_idle)
  next
    case True
    show ?thesis
    proof (cases "(sid, i) = job_ref (threads s ! k)")
      case False
      from status_of_run_thread_other [OF True False] Run_thread show ?thesis by simp
    next
      case same: True
      from True have "threads s ! k \<in> set (threads s)" by simp
      with inv have "\<exists>a. status_of s (job_session_id (threads s ! k))
          (job_file (threads s ! k)) = Some a \<and> a \<noteq> Uploaded"
        unfolding threads_past_upload_def by blast
      with same obtain a where p: "status_of s sid i = Some a" and a: "a \<noteq> Uploaded"
        by (auto simp: job_ref_def)
      then obtain f where f: "get_record s sid i = Some f"
        by (auto simp: status_of_def)
      from run_thread_effect(4) [OF True, of f w clk] f same
      obtain f' where "get_record (run_thread w clk k s) sid i = Some f'"
        and "status f' = Completed \<or> status f' = Failed"
        by (auto simp: job_ref_def)
      with p a Run_thread show ?thesis
        by (auto simp: status_of_def)
    qed
  qed
next
  case (Download w name)
  then show ?thesis by simp
next
  case (Session_info clk sid0)
  then show ?thesis by (simp add: status_of_def session_info_effect)
next
  case (Dismiss clk req)
  then show ?thesis by (simp add: status_of_def dismiss_effect)
qed


text \<open>
  C4. The claim: every record's status sequence is a prefix of uploaded, processing, then
  one of completed or failed, and no operation moves a record out of a terminal state,
  back to an earlier state, or from uploaded directly to a terminal state.
  \<^verbatim>\<open>convert_file\<close> sets the status to processing and starts a thread without looking at
  the status the record has, so a second convert request for a record takes it out of
  completed or failed (or leaves two threads, each writing a terminal status). What
  holds: in every run, each step creates a record as uploaded, leaves its status, sets it
  to processing, or takes it from a status other than uploaded to completed or failed
  (never back to uploaded, never from uploaded to a terminal status); and in every run
  in which no record is converted a second time, the sequence of values a record takes
  on is a prefix of uploaded, processing, then one of completed or failed.
\<close>

theorem C4_status_lifecycle:
  "permitted_step (status_of (run (initial_state cfg) ops) sid i)
     (status_of (step (run (initial_state cfg) ops) x) sid i)
   \<and> (first_conversions (initial_state cfg) ops \<longrightarrow>
        lifecycle_prefix (values_taken (statuses (initial_state cfg) ops sid i)))"
  using permitted_of_step [OF past_upload_reachable] lifecycle_of_first_conversions by blast

text \<open>
  The draft is uploaded, converted and its job run; a second convert request is then a
  permitted step, from completed to processing.
\<close>

theorem C4_witness:
  "first_conversions (initial_state default_config) converted_once
   \<and> values_taken (statuses (initial_state default_config) converted_once ''s1'' 0) =
       [Uploaded, Processing, Completed]
   \<and> lifecycle_prefix (values_taken (statuses (initial_state default_config) converted_once
       ''s1'' 0))
   \<and> permitted_step (status_of (run (initial_state default_config) converted_once) ''s1'' 0)
       (status_of (step (run (initial_state default_config) converted_once)
          (Convert noon convert_draft)) ''s1'' 0)"
proof -
  have h: "first_conversions (initial_state default_config) converted_once"
    by code_simp
  have e: "values_taken (statuses (initial_state default_config) converted_once ''s1'' 0) =
       [Uploaded, Processing, Completed]"
    by code_simp
  show ?thesis
    using h e
      C4_status_lifecycle [of default_config converted_once "''s1''" 0
        "Convert noon convert_draft"]
    by blast
qed

text \<open>
  The same run with the second convert request: the record goes from completed back to
  processing, and its sequence is no prefix of the lifecycle.
\<close>

theorem C4_counterexample:
  "status_of (run (initial_state default_config) converted_once) ''s1'' 0 = Some Completed
   \<and> status_of (step (run (initial_state default_config) converted_once)
        (Convert noon convert_draft)) ''s1'' 0 = Some Processing
   \<and> values_taken (statuses (initial_state default_config)
        (converted_once @ [Convert noon convert_draft]) ''s1'' 0) =
       [Uploaded, Processing, Completed, Processing]
   \<and> \<not> lifecycle_prefix (values_taken (statuses (initial_state default_config)
        (converted_once @ [Convert noon convert_draft]) ''s1'' 0))"
  by code_simp

end
